theory Spec2Isabelle
  imports
    Complex_Main
    "HOL-Library.Char_ord"
    "HOL-Library.List_Lexorder"
    "HOL-Library.Log_Nat"
    "HOL-Library.Code_Target_Numeral"
begin

section \<open>ObjectStoreProviderUtils: key resolution and orderable key encoding\<close>

text \<open>
  A shallow embedding of \<^verbatim>\<open>src/ObjectStoreProviderUtils.ts\<close>: the functions
  \<^verbatim>\<open>arrayify\<close>, \<^verbatim>\<open>getSerializedKeyForKeypath\<close>, \<^verbatim>\<open>getKeyForKeypath\<close>,
  \<^verbatim>\<open>getValueForSingleKeypath\<close>, \<^verbatim>\<open>isCompoundKeyPath\<close>, \<^verbatim>\<open>formListOfKeys\<close>,
  \<^verbatim>\<open>serializeValueToOrderableString\<close>, \<^verbatim>\<open>formatFixed\<close>,
  \<^verbatim>\<open>serializeNumberToOrderableString\<close>, \<^verbatim>\<open>serializeKeyToString\<close> and
  \<^verbatim>\<open>formListOfSerializedKeys\<close>. Every \<^verbatim>\<open>throw\<close> is a left injection of a sum type.

  Strings are lists of \<^typ>\<open>char\<close>, compared lexicographically character by character,
  which is the order of the \<^verbatim>\<open><\<close> operator of the source on strings of one-byte
  characters; all text the encoder itself produces is ASCII.
\<close>

subsection \<open>Numbers\<close>

text \<open>
  A Number of the source is \<^verbatim>\<open>NaN\<close>, an infinity, or a finite binary floating-point
  value. The model computes with decimal fractions, exactly: \<open>Fin m e\<close> denotes
  \<open>m \<times> 10\<^sup>e\<close>, and every finite binary value is such a fraction. Three things of the
  source are idealised by this.
  \<^item> \<^verbatim>\<open>Math.log\<close> and \<^verbatim>\<open>Math.pow\<close> are approximations whose accuracy the language
    leaves to the engine; the model takes the logarithm and the power themselves.
  \<^item> \<^verbatim>\<open>/\<close> and \<^verbatim>\<open>-\<close> round their result to 53 bits; the model does not round.
  \<^item> \<^verbatim>\<open>String\<close> prints the shortest decimal that reads back as the same binary value;
    the model prints the digits of the fraction itself.

  Model and engine agree at an input when the engine's intermediate results are exact and
  the values printed have no shorter decimal that reads back the same. That is so for
  every number at which the encoder is evaluated below: small integers, \<open>1.5\<close>, \<open>9.5\<close>
  and \<open>10 - 2\<^sup>-\<^sup>2\<^sup>0\<close>. A statement about all numbers is a statement about the model's
  arithmetic. The negative zero of the source equals zero and prints as \<^verbatim>\<open>0\<close>, so it is
  not kept apart.
\<close>

datatype number = NaN | PosInf | NegInf | Fin int int

fun val :: "number \<Rightarrow> real" where
  "val (Fin m e) = of_int m * 10 powi e"
| "val _ = 0"

fun isNaN :: "number \<Rightarrow> bool" where
  "isNaN NaN = True"
| "isNaN _ = False"

fun isFinite :: "number \<Rightarrow> bool" where
  "isFinite (Fin m e) = True"
| "isFinite _ = False"

text \<open>\<^verbatim>\<open>n === 0\<close> and \<^verbatim>\<open>n < 0\<close>; both are false of \<^verbatim>\<open>NaN\<close>.\<close>

fun isZero :: "number \<Rightarrow> bool" where
  "isZero (Fin m e) = (m = 0)"
| "isZero _ = False"

fun isNegative :: "number \<Rightarrow> bool" where
  "isNegative (Fin m e) = (m < 0)"
| "isNegative NegInf = True"
| "isNegative _ = False"

text \<open>Unary minus, \<^verbatim>\<open>-n\<close>.\<close>

fun negate :: "number \<Rightarrow> number" where
  "negate (Fin m e) = Fin (- m) e"
| "negate PosInf = NegInf"
| "negate NegInf = PosInf"
| "negate NaN = NaN"

text \<open>
  \<^verbatim>\<open>Math.floor(Math.log(n) / Math.LN10)\<close> for a finite \<open>n > 0\<close>: the number of decimal
  digits of the mantissa, less one, plus the decimal exponent. The result of
  \<^verbatim>\<open>Math.floor\<close> is an integer, kept as an \<^typ>\<open>int\<close>.
\<close>

fun log10floor :: "number \<Rightarrow> int" where
  "log10floor (Fin m e) = int (floorlog 10 (nat m)) - 1 + e"
| "log10floor _ = 0"

text \<open>\<^verbatim>\<open>n / Math.pow(10, exponent)\<close>.\<close>

fun divPow10 :: "number \<Rightarrow> int \<Rightarrow> number" where
  "divPow10 (Fin m e) k = Fin m (e - k)"
| "divPow10 n k = n"

text \<open>\<^verbatim>\<open>10 - n\<close>.\<close>

fun tenMinus :: "number \<Rightarrow> number" where
  "tenMinus (Fin m e) =
     (if 0 \<le> e then Fin (10 - m * 10 ^ nat e) 0 else Fin (10 * 10 ^ nat (- e) - m) e)"
| "tenMinus PosInf = NegInf"
| "tenMinus NegInf = PosInf"
| "tenMinus NaN = NaN"

text \<open>An integer as a Number, for \<^verbatim>\<open>1024 + exponent\<close> and \<^verbatim>\<open>1024 - exponent\<close>.\<close>

definition ofInt :: "int \<Rightarrow> number" where
  "ofInt k = Fin k 0"

subsection \<open>\<^verbatim>\<open>String(n)\<close>\<close>

text \<open>
  The decimal digits of a natural number, most significant first.
\<close>

definition digitChar :: "nat \<Rightarrow> char" where
  "digitChar d = char_of (48 + d)"

fun digits :: "nat \<Rightarrow> string" where
  "digits n = (if n < 10 then [digitChar n] else digits (n div 10) @ [digitChar (n mod 10)])"

declare digits.simps [simp del]

definition stripTrailingZeros :: "string \<Rightarrow> string" where
  "stripTrailingZeros ds = rev (dropWhile (\<lambda>c. c = CHR ''0'') (rev ds))"

text \<open>
  The language's \<^verbatim>\<open>Number::toString\<close> of a positive finite value with mantissa \<open>m > 0\<close>
  and decimal exponent \<open>e\<close>. With \<open>ds\<close> the significant digits (\<open>k\<close> of them) and \<open>n\<close>
  the position of the decimal point, so that the value is \<open>0.ds \<times> 10\<^sup>n\<close>:
  an integer below \<open>10\<^sup>2\<^sup>1\<close> is its digits; a value with \<open>0 < n \<le> 21\<close> has the point
  inside the digits; a value with \<open>-6 < n \<le> 0\<close> is \<^verbatim>\<open>0.\<close>, zeros and the digits;
  everything else is in exponent notation.
\<close>

definition stringPos :: "nat \<Rightarrow> int \<Rightarrow> string" where
  "stringPos m e =
     (let ds0 = digits m;
          ds = stripTrailingZeros ds0;
          k = int (length ds);
          n = int (length ds0) + e
      in if k \<le> n \<and> n \<le> 21 then ds @ replicate (nat (n - k)) (CHR ''0'')
         else if 0 < n \<and> n \<le> 21 then take (nat n) ds @ ''.'' @ drop (nat n) ds
         else if - 6 < n \<and> n \<le> 0 then ''0.'' @ replicate (nat (- n)) (CHR ''0'') @ ds
         else
           (let x = n - 1;
                sgn = (if x < 0 then ''-'' else ''+'');
                ex = digits (nat \<bar>x\<bar>)
            in if k = 1 then ds @ ''e'' @ sgn @ ex
               else take 1 ds @ ''.'' @ drop 1 ds @ ''e'' @ sgn @ ex))"

fun String :: "number \<Rightarrow> string" where
  "String NaN = ''NaN''"
| "String PosInf = ''Infinity''"
| "String NegInf = ''-Infinity''"
| "String (Fin m e) =
     (if m = 0 then ''0''
      else if m < 0 then ''-'' @ stringPos (nat (- m)) e
      else stringPos (nat m) e)"

subsection \<open>The number encoder\<close>

definition zeroes :: string where
  "zeroes = ''0000000000000000''"

text \<open>
  \<^verbatim>\<open>formatFixed(n, digits)\<close>; \<^verbatim>\<open>zeroes.substr(0, prefix)\<close> is the first \<open>prefix\<close>
  characters of \<open>zeroes\<close>.
\<close>

definition formatFixed :: "number \<Rightarrow> int \<Rightarrow> string" where
  "formatFixed n dgts =
     (let result = String n;
          prefix = dgts - int (length result)
      in if 0 < prefix \<and> prefix < int (length zeroes)
         then take (nat prefix) zeroes @ result
         else result)"

definition serializeNumberToOrderableString :: "number \<Rightarrow> string" where
  "serializeNumberToOrderableString n0 =
     (if isZero n0 \<or> isNaN n0 \<or> \<not> isFinite n0 then String n0
      else
        (let isPositive = \<not> isNegative n0;
             n = (if isNegative n0 then negate n0 else n0);
             exponent = log10floor n;
             n' = divPow10 n exponent
         in if isPositive then formatFixed (ofInt (1024 + exponent)) 4 @ String n'
            else ''-'' @ formatFixed (ofInt (1024 - exponent)) 4 @ String (tenMinus n')))"

subsection \<open>Values, key paths and errors\<close>

text \<open>
  The values of the source, as far as these functions tell them apart. A \<open>DateV t\<close> is
  a Date object with time value \<open>t\<close> (what \<^verbatim>\<open>getTime()\<close> returns; \<^verbatim>\<open>NaN\<close> for an
  invalid date). An object carries what its prototype says about its constructor:
  \<open>Proto c\<close> when \<^verbatim>\<open>Object.getPrototypeOf(val).constructor\<close> is the function named \<open>c\<close>
  (\<open>Proto ''Object''\<close> for an object literal), and \<open>NullProto\<close> when the object has no
  prototype (\<^verbatim>\<open>Object.create(null)\<close>). Its own properties are an association list.
\<close>

datatype proto = NullProto | Proto string

datatype jsval =
    Undefined
  | Null
  | Bool bool
  | Num number
  | Str string
  | DateV number
  | Arr "jsval list"
  | Obj proto "(string \<times> jsval) list"

text \<open>
  Modelled from the spec: the type \<^verbatim>\<open>KeyPathType\<close> is declared in
  \<^verbatim>\<open>./ObjectStoreProvider\<close>, which is not among the sources. A key path is either a
  single field locator or an ordered sequence of field locators.
\<close>

datatype keypath = KeyPathString string | KeyPathArray "string list"

text \<open>
  What the message of the unsupported-type error shows between its quotes: the result of
  \<^verbatim>\<open>typeof\<close>, or a constructor function.
\<close>

datatype typeDesc = TypeofName string | ConstructorFn string

text \<open>
  The exceptions. The three shape errors are the three \<^verbatim>\<open>throw new Error(...)\<close> whose
  message embeds \<^verbatim>\<open>JSON.stringify(keyPath)\<close> and \<^verbatim>\<open>JSON.stringify\<close> of the key; the
  constructor keeps the two values the message is built from. \<open>LanguageTypeError\<close> is
  the language's own \<^verbatim>\<open>TypeError\<close>, thrown for reading a property of \<^verbatim>\<open>null\<close> and for
  asking for the prototype of \<^verbatim>\<open>null\<close> or \<^verbatim>\<open>undefined\<close>.
\<close>

datatype error =
    UnsupportedType typeDesc
  | LanguageTypeError
  | FormListCompoundKeypathNonCompoundKeys keypath jsval
  | SerializeCompoundKeypathNonCompoundKey keypath jsval
  | SerializeNonCompoundKeypathCompoundKey keypath jsval

subsection \<open>Library predicates\<close>

text \<open>
  \<^verbatim>\<open>isArray\<close>, \<^verbatim>\<open>isNull\<close>, \<^verbatim>\<open>isUndefined\<close>, \<^verbatim>\<open>isDate\<close>, \<^verbatim>\<open>isObject\<close>, \<^verbatim>\<open>map\<close>,
  \<^verbatim>\<open>some\<close> and \<^verbatim>\<open>get\<close> are imported from the library lodash. The predicates are
  those of the library on the values above: \<^verbatim>\<open>isDate\<close> holds of the Date objects, which
  is the case \<open>DateV\<close>, and \<^verbatim>\<open>isObject\<close> of everything that is not a primitive.
\<close>

fun isArray :: "jsval \<Rightarrow> bool" where
  "isArray (Arr xs) = True"
| "isArray _ = False"

fun isNull :: "jsval \<Rightarrow> bool" where
  "isNull Null = True"
| "isNull _ = False"

fun isUndefined :: "jsval \<Rightarrow> bool" where
  "isUndefined Undefined = True"
| "isUndefined _ = False"

fun isObject :: "jsval \<Rightarrow> bool" where
  "isObject (DateV t) = True"
| "isObject (Arr xs) = True"
| "isObject (Obj p fs) = True"
| "isObject _ = False"

fun isArrayKeyPath :: "keypath \<Rightarrow> bool" where
  "isArrayKeyPath (KeyPathArray ps) = True"
| "isArrayKeyPath (KeyPathString p) = False"

text \<open>The operator \<^verbatim>\<open>typeof\<close>.\<close>

fun typeof :: "jsval \<Rightarrow> string" where
  "typeof Undefined = ''undefined''"
| "typeof Null = ''object''"
| "typeof (Bool b) = ''boolean''"
| "typeof (Num n) = ''number''"
| "typeof (Str s) = ''string''"
| "typeof (DateV t) = ''object''"
| "typeof (Arr xs) = ''object''"
| "typeof (Obj p fs) = ''object''"

text \<open>
  \<^verbatim>\<open>Object.getPrototypeOf(val).constructor\<close>. Reading \<^verbatim>\<open>.constructor\<close> of the
  \<^verbatim>\<open>null\<close> that \<^verbatim>\<open>getPrototypeOf\<close> returns for an object without prototype throws.
  The encoder asks this of non-primitive values only; a primitive has the prototype of its
  wrapper, and \<^verbatim>\<open>null\<close> and \<^verbatim>\<open>undefined\<close> have none to ask for.
\<close>

fun prototypeConstructor :: "jsval \<Rightarrow> error + typeDesc" where
  "prototypeConstructor (Obj NullProto fs) = Inl LanguageTypeError"
| "prototypeConstructor (Obj (Proto c) fs) = Inr (ConstructorFn c)"
| "prototypeConstructor (Arr xs) = Inr (ConstructorFn ''Array'')"
| "prototypeConstructor (DateV t) = Inr (ConstructorFn ''Date'')"
| "prototypeConstructor (Bool b) = Inr (ConstructorFn ''Boolean'')"
| "prototypeConstructor (Num n) = Inr (ConstructorFn ''Number'')"
| "prototypeConstructor (Str s) = Inr (ConstructorFn ''String'')"
| "prototypeConstructor Null = Inl LanguageTypeError"
| "prototypeConstructor Undefined = Inl LanguageTypeError"

text \<open>
  \<^verbatim>\<open>map(xs, f)\<close> with an \<open>f\<close> that may throw: the first exception ends the traversal.
\<close>

fun mapE :: "('a \<Rightarrow> error + 'b) \<Rightarrow> 'a list \<Rightarrow> error + 'b list" where
  "mapE f [] = Inr []"
| "mapE f (x # xs) =
     (case f x of
        Inl e \<Rightarrow> Inl e
      | Inr y \<Rightarrow> (case mapE f xs of Inl e \<Rightarrow> Inl e | Inr ys \<Rightarrow> Inr (y # ys)))"

text \<open>\<^verbatim>\<open>Array.prototype.join\<close> on an array of strings.\<close>

fun join :: "string list \<Rightarrow> string \<Rightarrow> string" where
  "join [] sep = []"
| "join [x] sep = x"
| "join (x # y # ys) sep = x @ sep @ join (y # ys) sep"

text \<open>
  \<^verbatim>\<open>get(object, path, undefined)\<close> of lodash, for a path that is a string: nested property
  lookup along a dotted path, where absence at any level yields \<^verbatim>\<open>undefined\<close> and not an
  error. A path that is itself a property of the object addresses that property; otherwise
  the path is cut at its dots and the properties are followed one by one, stopping with
  \<^verbatim>\<open>undefined\<close> at the first \<^verbatim>\<open>null\<close> or \<^verbatim>\<open>undefined\<close>. Own properties of objects and
  the elements of arrays are properties; the library's bracket syntax, inherited
  properties and the properties of primitives (the length of a string) are left out.
\<close>

fun splitDots :: "string \<Rightarrow> string list" where
  "splitDots [] = [[]]"
| "splitDots (c # cs) =
     (if c = CHR ''.'' then [] # splitDots cs
      else (case splitDots cs of [] \<Rightarrow> [[c]] | w # ws \<Rightarrow> (c # w) # ws))"

fun arrayIndex :: "string \<Rightarrow> nat option" where
  "arrayIndex s = (if s \<noteq> [] \<and> s = digits (foldl (\<lambda>a c. 10 * a + (of_char c - 48)) 0 s)
                   then Some (foldl (\<lambda>a c. 10 * a + (of_char c - 48)) 0 s) else None)"

fun property :: "jsval \<Rightarrow> string \<Rightarrow> jsval" where
  "property (Obj p fs) k = (case map_of fs k of None \<Rightarrow> Undefined | Some v \<Rightarrow> v)"
| "property (Arr xs) k =
     (case arrayIndex k of
        None \<Rightarrow> Undefined
      | Some i \<Rightarrow> (if i < length xs then xs ! i else Undefined))"
| "property v k = Undefined"

fun hasProperty :: "jsval \<Rightarrow> string \<Rightarrow> bool" where
  "hasProperty (Obj p fs) k = (map_of fs k \<noteq> None)"
| "hasProperty (Arr xs) k = (case arrayIndex k of None \<Rightarrow> False | Some i \<Rightarrow> i < length xs)"
| "hasProperty v k = False"

fun baseGet :: "jsval \<Rightarrow> string list \<Rightarrow> jsval" where
  "baseGet obj [] = obj"
| "baseGet obj (k # ks) =
     (if isNull obj \<or> isUndefined obj then Undefined else baseGet (property obj k) ks)"

definition lodashGet :: "jsval \<Rightarrow> string \<Rightarrow> jsval" where
  "lodashGet obj path =
     (if isNull obj \<or> isUndefined obj then Undefined
      else baseGet obj (if hasProperty obj path then [path] else splitDots path))"

subsection \<open>Key resolution\<close>

text \<open>
  \<^verbatim>\<open>arrayify\<close> is generic in the source and used at two types: on key paths and on
  keys.
\<close>

fun arrayifyKeyPath :: "keypath \<Rightarrow> string list" where
  "arrayifyKeyPath (KeyPathArray ps) = ps"
| "arrayifyKeyPath (KeyPathString p) = [p]"

fun arrayify :: "jsval \<Rightarrow> jsval list" where
  "arrayify (Arr xs) = xs"
| "arrayify v = [v]"

definition getValueForSingleKeypath :: "jsval \<Rightarrow> string \<Rightarrow> jsval" where
  "getValueForSingleKeypath obj singleKeyPath = lodashGet obj singleKeyPath"

text \<open>
  \<^verbatim>\<open>xs[0]\<close>: the first element, \<^verbatim>\<open>undefined\<close> on an empty array.
\<close>

fun first :: "jsval list \<Rightarrow> jsval" where
  "first [] = Undefined"
| "first (x # xs) = x"

text \<open>
  \<^verbatim>\<open>getKeyForKeypath\<close>; the result \<^verbatim>\<open>undefined\<close> is the value \<open>Undefined\<close>.
\<close>

definition getKeyForKeypath :: "jsval \<Rightarrow> keypath \<Rightarrow> jsval" where
  "getKeyForKeypath obj keyPathRaw =
     (let keyPathArray = arrayifyKeyPath keyPathRaw;
          values = map (\<lambda>kp. getValueForSingleKeypath obj kp) keyPathArray
      in if list_ex (\<lambda>v. isNull v \<or> isUndefined v) values then Undefined
         else if \<not> isArrayKeyPath keyPathRaw then first values
         else Arr values)"

fun isCompoundKeyPath :: "keypath \<Rightarrow> bool" where
  "isCompoundKeyPath (KeyPathArray ps) = (length ps > 1)"
| "isCompoundKeyPath (KeyPathString p) = False"

subsection \<open>Key lists\<close>

text \<open>
  \<^verbatim>\<open>formListOfKeys\<close>; the array it returns is the list of its elements.
\<close>

definition formListOfKeys :: "jsval \<Rightarrow> keypath \<Rightarrow> error + jsval list" where
  "formListOfKeys keyOrKeys keyPath =
     (if isCompoundKeyPath keyPath then
        (if \<not> isArray keyOrKeys
         then Inl (FormListCompoundKeypathNonCompoundKeys keyPath keyOrKeys)
         else if \<not> isArray (first (arrayify keyOrKeys)) then Inr [keyOrKeys]
         else Inr (arrayify keyOrKeys))
      else Inr (arrayify keyOrKeys))"

subsection \<open>The scalar encoder and the key serializer\<close>

fun serializeValueToOrderableString :: "jsval \<Rightarrow> error + string" where
  "serializeValueToOrderableString (Num n) = Inr (''A'' @ serializeNumberToOrderableString n)"
| "serializeValueToOrderableString (DateV t) = Inr (''B'' @ serializeNumberToOrderableString t)"
| "serializeValueToOrderableString (Str s) = Inr (''C'' @ s)"
| "serializeValueToOrderableString v =
     (case (if isObject v then prototypeConstructor v else Inr (TypeofName (typeof v))) of
        Inl e \<Rightarrow> Inl e
      | Inr t \<Rightarrow> Inl (UnsupportedType t))"

definition keypathJoinerString :: string where
  "keypathJoinerString = ''%&''"

definition serializeKeyToString :: "jsval \<Rightarrow> keypath \<Rightarrow> error + string" where
  "serializeKeyToString key keyPath =
     (if isCompoundKeyPath keyPath then
        (if isArray key then
           (case mapE (\<lambda>k. serializeValueToOrderableString k) (arrayify key) of
              Inl e \<Rightarrow> Inl e
            | Inr ss \<Rightarrow> Inr (join ss keypathJoinerString))
         else Inl (SerializeCompoundKeypathNonCompoundKey keyPath key))
      else
        (if isArray key then Inl (SerializeNonCompoundKeypathCompoundKey keyPath key)
         else serializeValueToOrderableString key))"

text \<open>
  \<^verbatim>\<open>getSerializedKeyForKeypath\<close>; \<open>Inr None\<close> is the result \<^verbatim>\<open>undefined\<close>.
\<close>

definition getSerializedKeyForKeypath :: "jsval \<Rightarrow> keypath \<Rightarrow> error + string option" where
  "getSerializedKeyForKeypath obj keyPathRaw =
     (let values = getKeyForKeypath obj keyPathRaw
      in if values = Undefined then Inr None
         else (case serializeKeyToString values keyPathRaw of
                 Inl e \<Rightarrow> Inl e
               | Inr s \<Rightarrow> Inr (Some s)))"

definition formListOfSerializedKeys :: "jsval \<Rightarrow> keypath \<Rightarrow> error + string list" where
  "formListOfSerializedKeys keyOrKeys keyPath =
     (case formListOfKeys keyOrKeys keyPath of
        Inl e \<Rightarrow> Inl e
      | Inr keys \<Rightarrow> mapE (\<lambda>key. serializeKeyToString key keyPath) keys)"

subsection \<open>The messages of the exceptions\<close>

text \<open>
  The messages are concatenations of fixed text with texts the language produces:
  \<^verbatim>\<open>JSON.stringify\<close> of the key path and of the key, the text of a constructor function,
  and the engine's message of the \<^verbatim>\<open>TypeError\<close>. These four are parameters.
\<close>

record renderers =
  jsonKeyPath :: "keypath \<Rightarrow> string"
  jsonKey :: "jsval \<Rightarrow> string"
  functionText :: "string \<Rightarrow> string"
  typeErrorText :: string

fun typeText :: "renderers \<Rightarrow> typeDesc \<Rightarrow> string" where
  "typeText r (TypeofName t) = t"
| "typeText r (ConstructorFn c) = functionText r c"

fun errorMessage :: "renderers \<Rightarrow> error \<Rightarrow> string" where
  "errorMessage r (UnsupportedType t) =
     ''Type '' @ [CHR 0x27] @ typeText r t @ [CHR 0x27]
       @ '' unsupported at this time.  Only numbers, Dates, and strings are currently supported.''"
| "errorMessage r LanguageTypeError = typeErrorText r"
| "errorMessage r (FormListCompoundKeypathNonCompoundKeys keyPath keyOrKeys) =
     ''formListOfKeys called with a compound keypath ('' @ jsonKeyPath r keyPath
       @ '') but a non-compound keyOrKeys ('' @ jsonKey r keyOrKeys @ '')''"
| "errorMessage r (SerializeCompoundKeypathNonCompoundKey keyPath key) =
     ''serializeKeyToString called with a compound keypath ('' @ jsonKeyPath r keyPath
       @ '') but a non-compound key ('' @ jsonKey r key @ '')''"
| "errorMessage r (SerializeNonCompoundKeypathCompoundKey keyPath key) =
     ''serializeKeyToString called with a non-compound keypath ('' @ jsonKeyPath r keyPath
       @ '') but a compound key ('' @ jsonKey r key @ '')''"

subsection \<open>Notions the properties are stated with\<close>

text \<open>
  The two exceptions of \<^verbatim>\<open>serializeKeyToString\<close> and the one of \<^verbatim>\<open>formListOfKeys\<close>
  that report a key whose shape does not fit the key path.
\<close>

fun isShapeMismatch :: "error \<Rightarrow> bool" where
  "isShapeMismatch (FormListCompoundKeypathNonCompoundKeys kp k) = True"
| "isShapeMismatch (SerializeCompoundKeypathNonCompoundKey kp k) = True"
| "isShapeMismatch (SerializeNonCompoundKeypathCompoundKey kp k) = True"
| "isShapeMismatch e = False"

text \<open>The values of the type \<^verbatim>\<open>KeyComponentType\<close>: numbers, Dates and strings.\<close>

fun isKeyComponent :: "jsval \<Rightarrow> bool" where
  "isKeyComponent (Num n) = True"
| "isKeyComponent (DateV t) = True"
| "isKeyComponent (Str s) = True"
| "isKeyComponent v = False"

text \<open>
  The number encoding in the words of the specification, to compare the source's function
  with: the exponent is \<open>\<lfloor>log\<^sub>1\<^sub>0 |n|\<rfloor>\<close>, a logarithm of real numbers; the mantissa is
  \<open>|n|\<close> divided by ten to the power of the exponent; a field is zero-padded to four digits
  by putting zeros in front of it until it has four characters.
\<close>

definition specExponent :: "number \<Rightarrow> int" where
  "specExponent n = \<lfloor>log 10 \<bar>val n\<bar>\<rfloor>"

definition magnitude :: "number \<Rightarrow> number" where
  "magnitude n = (if val n < 0 then negate n else n)"

definition specMantissa :: "number \<Rightarrow> number" where
  "specMantissa n = divPow10 (magnitude n) (specExponent n)"

definition zeroPadded :: "nat \<Rightarrow> string \<Rightarrow> string" where
  "zeroPadded w s = replicate (w - length s) (CHR ''0'') @ s"

definition specNumberEncoding :: "number \<Rightarrow> string" where
  "specNumberEncoding n =
     (if isNaN n \<or> isZero n then String n
      else if isFinite n then
        (if 0 < val n
         then zeroPadded 4 (String (ofInt (1024 + specExponent n))) @ String (specMantissa n)
         else ''-'' @ zeroPadded 4 (String (ofInt (1024 - specExponent n)))
                @ String (tenMinus (specMantissa n)))
      else String n)"

section \<open>Properties\<close>

subsection \<open>The arithmetic of the number model is exact\<close>

lemma pow10_pos: "0 < (10::real) powi e"
  by (simp add: zero_less_power_int)

lemma val_pos_iff: "0 < val (Fin m e) \<longleftrightarrow> 0 < m"
  using mult_less_cancel_right_pos [OF pow10_pos, of 0 e "of_int m"] by simp

lemma val_neg_iff: "val (Fin m e) < 0 \<longleftrightarrow> m < 0"
  using mult_less_cancel_right_pos [OF pow10_pos, of "of_int m" e 0] by simp

lemma val_negate: "val (negate n) = - val n"
  by (cases n) simp_all

lemma val_divPow10: "val (divPow10 (Fin m e) k) = val (Fin m e) / 10 powi k"
  by (simp add: power_int_diff)

lemma val_tenMinus: "val (tenMinus (Fin m e)) = 10 - val (Fin m e)"
proof (cases "0 \<le> e")
  case True
  then have "(10::real) powi e = 10 ^ nat e"
    by (simp add: power_int_def)
  with True show ?thesis by simp
next
  case False
  then have "(10::real) powi e * 10 ^ nat (- e) = 1"
    by (simp add: power_int_def field_simps)
  with False show ?thesis by (simp add: algebra_simps)
qed

lemma val_ofInt: "val (ofInt k) = of_int k"
  by (simp add: ofInt_def)

lemma powr10_int: "(10::real) powr of_int k = 10 powi k"
  by (simp add: powr_real_of_int')

lemma log10_pow10: "log 10 ((10::real) powi e) = of_int e"
  unfolding powr10_int [symmetric] by simp

text \<open>
  The digit count that \<open>log10floor\<close> computes is the floor of the decimal logarithm, and
  so the value of the source's expression \<^verbatim>\<open>Math.floor(Math.log(n) / Math.LN10)\<close> read
  over the real numbers.
\<close>

lemma log10floor_eq:
  assumes "0 < m"
  shows "log10floor (Fin m e) = \<lfloor>log 10 (val (Fin m e))\<rfloor>"
proof -
  have m: "0 < nat m" "real (nat m) = of_int m"
    using assms by simp_all
  have "int (floorlog 10 (nat m)) - 1 = \<lfloor>log 10 (real (nat m))\<rfloor>"
    using m(1) by (simp add: floorlog_def)
  moreover have "log 10 (val (Fin m e)) = log 10 (of_int m) + of_int e"
    using assms pow10_pos [of e] by (simp add: log_mult log10_pow10)
  ultimately show ?thesis
    using m(2) by simp
qed

lemma log10floor_source_expression:
  assumes "0 < m"
  shows "log10floor (Fin m e) = \<lfloor>ln (val (Fin m e)) / ln 10\<rfloor>"
  using log10floor_eq [OF assms] by (simp add: log_def)

text \<open>
  The mantissa of a positive number, the number divided by ten to the power of its
  exponent, lies in \<open>[1, 10)\<close>.
\<close>

lemma mantissa_range:
  assumes "0 < m"
  shows "1 \<le> val (divPow10 (Fin m e) (log10floor (Fin m e)))
         \<and> val (divPow10 (Fin m e) (log10floor (Fin m e))) < 10"
proof -
  define v where "v = val (Fin m e)"
  define k where "k = log10floor (Fin m e)"
  have v: "0 < v"
    using assms val_pos_iff [of m e] by (simp add: v_def)
  have "\<lfloor>log 10 v\<rfloor> = k"
    using log10floor_eq [OF assms, of e] by (simp add: v_def k_def)
  then have "10 powr of_int k \<le> v \<and> v < 10 powr of_int (k + 1)"
    using v floor_log_eq_powr_iff [of v 10 k] by simp
  then have b: "10 powi k \<le> v" "v < 10 powi (k + 1)"
    unfolding powr10_int by simp_all
  have "(10::real) powi (k + 1) = 10 * 10 powi k"
    by (simp add: power_int_add)
  with b have "1 \<le> v / 10 powi k \<and> v / 10 powi k < 10"
    using pow10_pos [of k] by (simp add: field_simps)
  moreover have "val (divPow10 (Fin m e) k) = v / 10 powi k"
    unfolding v_def by (rule val_divPow10)
  ultimately show ?thesis
    unfolding k_def by simp
qed

subsection \<open>The text of a number depends on its value only\<close>

lemma digitChar_0: "digitChar 0 = CHR ''0''"
  by code_simp

lemma digits_times_10:
  assumes "0 < m"
  shows "digits (m * 10) = digits m @ ''0''"
proof -
  have "\<not> m * 10 < 10"
    using assms by simp
  then show ?thesis
    by (subst digits.simps) (simp add: digitChar_0)
qed

lemma digits_times_pow10:
  assumes "0 < m"
  shows "digits (m * 10 ^ j) = digits m @ replicate j (CHR ''0'')"
proof (induction j)
  case 0
  then show ?case by simp
next
  case (Suc j)
  have "digits (m * 10 ^ Suc j) = digits ((m * 10 ^ j) * 10)"
    by (simp add: ac_simps)
  also have "\<dots> = digits (m * 10 ^ j) @ ''0''"
    using assms by (intro digits_times_10) simp
  finally show ?case
    using Suc by (simp add: replicate_append_same)
qed

lemma dropWhile_replicate_zeros:
  "dropWhile (\<lambda>c. c = CHR ''0'') (replicate j (CHR ''0'') @ xs)
   = dropWhile (\<lambda>c. c = CHR ''0'') xs"
  by (induction j) simp_all

lemma stripTrailingZeros_append_zeros:
  "stripTrailingZeros (ds @ replicate j (CHR ''0'')) = stripTrailingZeros ds"
  by (simp add: stripTrailingZeros_def dropWhile_replicate_zeros)

lemma stringPos_scale:
  assumes "0 < m"
  shows "stringPos (m * 10 ^ j) e = stringPos m (e + int j)"
  by (simp add: stringPos_def digits_times_pow10 [OF assms] stripTrailingZeros_append_zeros
      Let_def ac_simps)

lemma String_scale: "String (Fin (m * 10 ^ j) e) = String (Fin m (e + int j))"
proof -
  consider "m = 0" | "0 < m" | "m < 0"
    by linarith
  then show ?thesis
  proof cases
    case 1
    then show ?thesis by simp
  next
    case 2
    then have "nat (m * 10 ^ j) = nat m * 10 ^ j"
      by (simp add: nat_mult_distrib nat_power_eq)
    then show ?thesis
      using 2 stringPos_scale [of "nat m" j e] by (simp add: mult_less_0_iff)
  next
    case 3
    then have "nat (- (m * 10 ^ j)) = nat (- m) * 10 ^ j"
      using nat_mult_distrib [of "- m" "10 ^ j"] by (simp add: nat_power_eq)
    moreover have "m * 10 ^ j < 0"
      using 3 by (simp add: mult_less_0_iff)
    ultimately show ?thesis
      using 3 stringPos_scale [of "nat (- m)" j e] by simp
  qed
qed

lemma val_eq_scale:
  assumes "val (Fin m e) = val (Fin m' e')" and "e \<le> e'"
  shows "m = m' * 10 ^ nat (e' - e)"
proof -
  have "(10::real) powi e' = 10 powi e * 10 ^ nat (e' - e)"
    using assms(2) power_int_add [of "10::real" e "e' - e"] by (simp add: power_int_def)
  then have "of_int m * (10::real) powi e = of_int (m' * 10 ^ nat (e' - e)) * 10 powi e"
    using assms(1) by simp
  then have "(of_int m :: real) = of_int (m' * 10 ^ nat (e' - e))"
    using pow10_pos [of e] by (simp del: of_int_mult of_int_power)
  then show ?thesis
    by (simp only: of_int_eq_iff)
qed

text \<open>
  Two representations of one value print alike, so \<open>String\<close> is a function of the
  number denoted.
\<close>

lemma String_by_value:
  assumes "val (Fin m e) = val (Fin m' e')"
  shows "String (Fin m e) = String (Fin m' e')"
proof (cases "e \<le> e'")
  case True
  from val_eq_scale [OF assms True] show ?thesis
    using String_scale [of m' "nat (e' - e)" e] True by simp
next
  case False
  then have le: "e' \<le> e"
    by simp
  from val_eq_scale [OF assms [symmetric] le] show ?thesis
    using String_scale [of m "nat (e - e')" e'] le by simp
qed

text \<open>And so is the encoding of a finite number.\<close>

lemma encoding_by_value:
  assumes "val (Fin m e) = val (Fin m' e')"
  shows "serializeNumberToOrderableString (Fin m e) = serializeNumberToOrderableString (Fin m' e')"
proof -
  consider "m = 0" | "0 < m" | "m < 0"
    by linarith
  then show ?thesis
  proof cases
    case 1
    then have "m' = 0"
      using assms val_pos_iff [of m' e'] val_neg_iff [of m' e'] by (simp del: val.simps) simp
    with 1 show ?thesis
      by (simp add: serializeNumberToOrderableString_def)
  next
    case 2
    then have pos: "0 < m'"
      using assms val_pos_iff [of m e] val_pos_iff [of m' e'] by (simp del: val.simps)
    define k where "k = log10floor (Fin m e)"
    have k: "log10floor (Fin m' e') = k"
      using assms log10floor_eq [OF 2, of e] log10floor_eq [OF pos, of e']
      by (simp add: k_def del: val.simps log10floor.simps)
    have "val (Fin m (e - k)) = val (Fin m' (e' - k))"
      using assms val_divPow10 [of m e k] val_divPow10 [of m' e' k] by (simp del: val.simps)
    then have "String (Fin m (e - k)) = String (Fin m' (e' - k))"
      by (rule String_by_value)
    then show ?thesis
      using 2 pos k k_def
      by (simp add: serializeNumberToOrderableString_def Let_def del: log10floor.simps String.simps)
  next
    case 3
    then have ng: "m' < 0"
      using assms val_neg_iff [of m e] val_neg_iff [of m' e'] by (simp del: val.simps)
    define k where "k = log10floor (Fin (- m) e)"
    have neg: "val (Fin (- m) e) = val (Fin (- m') e')"
      using assms by simp
    have k: "log10floor (Fin (- m') e') = k"
      using neg log10floor_eq [of "- m" e] log10floor_eq [of "- m'" e'] 3 ng
      by (simp add: k_def del: val.simps log10floor.simps)
    obtain x y where x: "tenMinus (Fin (- m) (e - k)) = Fin x y"
      by (cases "0 \<le> e - k") simp_all
    obtain x' y' where x': "tenMinus (Fin (- m') (e' - k)) = Fin x' y'"
      by (cases "0 \<le> e' - k") simp_all
    have "val (Fin (- m) (e - k)) = val (Fin (- m') (e' - k))"
      using neg val_divPow10 [of "- m" e k] val_divPow10 [of "- m'" e' k]
      by (simp del: val.simps)
    then have "val (Fin x y) = val (Fin x' y')"
      using val_tenMinus [of "- m" "e - k"] val_tenMinus [of "- m'" "e' - k"] x x'
      by (simp del: val.simps tenMinus.simps)
    then have "String (Fin x y) = String (Fin x' y')"
      by (rule String_by_value)
    then show ?thesis
      using 3 ng k k_def x x'
      by (simp add: serializeNumberToOrderableString_def Let_def
          del: log10floor.simps String.simps tenMinus.simps)
  qed
qed

subsection \<open>Encodings of some numbers\<close>

lemma encode_minus_5: "serializeNumberToOrderableString (Fin (- 5) 0) = ''-10245''"
  by code_simp

lemma encode_minus_1: "serializeNumberToOrderableString (Fin (- 1) 0) = ''-10249''"
  by code_simp

lemma encode_0: "serializeNumberToOrderableString (Fin 0 0) = ''0''"
  by code_simp

lemma encode_1: "serializeNumberToOrderableString (Fin 1 0) = ''10241''"
  by code_simp


lemma encode_100: "serializeNumberToOrderableString (Fin 100 0) = ''10261''"
  by code_simp

text \<open>
  The chain of the specification's example holds: the encodings of \<open>-5\<close>, \<open>-1\<close>, \<open>0\<close>,
  \<open>1\<close> and \<open>100\<close> are in ascending order.
\<close>

lemma example_chain_ascending:
  "serializeValueToOrderableString (Num (Fin (- 5) 0)) = Inr ''A-10245''
   \<and> serializeValueToOrderableString (Num (Fin (- 1) 0)) = Inr ''A-10249''
   \<and> serializeValueToOrderableString (Num (Fin 0 0)) = Inr ''A0''
   \<and> serializeValueToOrderableString (Num (Fin 1 0)) = Inr ''A10241''
   \<and> serializeValueToOrderableString (Num (Fin 100 0)) = Inr ''A10261''
   \<and> ''A-10245'' < ''A-10249'' \<and> ''A-10249'' < ''A0''
   \<and> ''A0'' < ''A10241'' \<and> ''A10241'' < ''A10261''"
  by (simp add: encode_minus_5 encode_minus_1 encode_0 encode_1 encode_100)

subsection \<open>Order of the number encoding\<close>

text \<open>
  C1. The claim: for all finite numbers \<open>a < b\<close> the encoding of \<open>a\<close> is lexicographically
  below the encoding of \<open>b\<close>. The code does not keep the order where \<^verbatim>\<open>String\<close> switches
  to exponent notation, which it does below \<open>10\<^sup>-\<^sup>6\<close>: for a negative number the digits
  after the exponent field are \<^verbatim>\<open>String(10 - n)\<close>, and \<open>10 - n\<close> is that small when the
  mantissa is close to ten. With \<open>a = -(10 - 2\<^sup>-\<^sup>2\<^sup>0) = -9.99999904632568359375\<close> and
  \<open>b = -9.5\<close>, both binary floating-point values on which every step of the source is
  exact, \<open>a < b\<close>, and the encoding of \<open>b\<close> is below the encoding of \<open>a\<close>.
\<close>

theorem number_order_violated:
  "val (Fin (- 999999904632568359375) (- 20)) < val (Fin (- 95) (- 1))
   \<and> serializeValueToOrderableString (Num (Fin (- 999999904632568359375) (- 20)))
       = Inr ''A-10249.5367431640625e-7''
   \<and> serializeValueToOrderableString (Num (Fin (- 95) (- 1))) = Inr ''A-10240.5''
   \<and> ''A-10240.5'' < ''A-10249.5367431640625e-7''"
proof -
  have a: "serializeNumberToOrderableString (Fin (- 999999904632568359375) (- 20))
           = ''-10249.5367431640625e-7''"
    by code_simp
  have b: "serializeNumberToOrderableString (Fin (- 95) (- 1)) = ''-10240.5''"
    by code_simp
  show ?thesis
    by (simp add: a b)
qed

subsection \<open>Order across types\<close>

text \<open>
  C2. For every number \<open>n\<close>, every Date with time value \<open>d\<close> and every string \<open>s\<close>, the
  three encodings exist, and the number's is lexicographically below the Date's, which is
  below the string's: they begin with \<open>A\<close>, \<open>B\<close> and \<open>C\<close>.
\<close>

theorem cross_type_order:
  "\<exists>a b c. serializeValueToOrderableString (Num n) = Inr (CHR ''A'' # a)
     \<and> serializeValueToOrderableString (DateV d) = Inr (CHR ''B'' # b)
     \<and> serializeValueToOrderableString (Str s) = Inr (CHR ''C'' # c)
     \<and> CHR ''A'' # a < CHR ''B'' # b \<and> CHR ''B'' # b < CHR ''C'' # c"
  by simp

subsection \<open>Compound keys\<close>


lemma mapE_components:
  "list_all isKeyComponent ks \<Longrightarrow>
   \<exists>ss. mapE serializeValueToOrderableString ks = Inr ss \<and> length ss = length ks"
proof (induction ks)
  case Nil
  then show ?case by simp
next
  case (Cons k ks)
  then obtain ss where ss: "mapE serializeValueToOrderableString ks = Inr ss"
      "length ss = length ks"
    by auto
  from Cons.prems have "isKeyComponent k"
    by simp
  then obtain x where "serializeValueToOrderableString k = Inr x"
    by (cases k) auto
  with ss show ?case
    by simp
qed

text \<open>
  C4, as claimed: a key whose length differs from the key path's is rejected with a shape
  error. It is not: the key \<open>[1]\<close> is encoded against the key path \<open>[a, b]\<close>.
\<close>

theorem arity_mismatch_is_encoded:
  "length [Num (Fin 1 0)] \<noteq> length [''a'', ''b'']
   \<and> isCompoundKeyPath (KeyPathArray [''a'', ''b''])
   \<and> serializeKeyToString (Arr [Num (Fin 1 0)]) (KeyPathArray [''a'', ''b'']) = Inr ''A10241''"
  by (simp add: serializeKeyToString_def encode_1)

text \<open>
  C4, amended: for every compound key path and every array-shaped key whose components
  are numbers, Dates or strings, \<^verbatim>\<open>serializeKeyToString\<close> succeeds, whatever the length of
  the key: the result is the encodings of the key's components, as many as the key has,
  joined by \<^verbatim>\<open>%&\<close>. The length of the key path is not consulted.
\<close>

theorem compound_key_any_arity_encoded:
  assumes "isCompoundKeyPath keyPath" and "list_all isKeyComponent ks"
  shows "\<exists>ss. mapE serializeValueToOrderableString ks = Inr ss \<and> length ss = length ks
     \<and> serializeKeyToString (Arr ks) keyPath = Inr (join ss keypathJoinerString)"
proof -
  from mapE_components [OF assms(2)] obtain ss where
    "mapE serializeValueToOrderableString ks = Inr ss" "length ss = length ks"
    by blast
  with assms(1) show ?thesis
    by (simp add: serializeKeyToString_def)
qed

theorem compound_key_any_arity_encoded_witness:
  "isCompoundKeyPath (KeyPathArray [''a'', ''b'']) \<and> list_all isKeyComponent [Num (Fin 1 0)]
   \<and> (\<exists>ss. mapE serializeValueToOrderableString [Num (Fin 1 0)] = Inr ss
        \<and> length ss = length [Num (Fin 1 0)]
        \<and> serializeKeyToString (Arr [Num (Fin 1 0)]) (KeyPathArray [''a'', ''b''])
            = Inr (join ss keypathJoinerString))"
  using compound_key_any_arity_encoded [of "KeyPathArray [''a'', ''b'']" "[Num (Fin 1 0)]"]
  by simp

subsection \<open>Key resolution\<close>

text \<open>
  C5. For every record and every key path: if any field locator of the key path resolves
  to \<^verbatim>\<open>null\<close> or \<^verbatim>\<open>undefined\<close> on the record, \<^verbatim>\<open>getKeyForKeypath\<close> returns
  \<^verbatim>\<open>undefined\<close>, and not a key with a hole. The property does not depend on how a locator
  is resolved.
\<close>

theorem undefined_propagation:
  assumes "list_ex (\<lambda>kp. isNull (getValueForSingleKeypath obj kp)
                          \<or> isUndefined (getValueForSingleKeypath obj kp))
             (arrayifyKeyPath keyPath)"
  shows "getKeyForKeypath obj keyPath = Undefined"
  using assms by (simp add: getKeyForKeypath_def list_ex_iff)

text \<open>The specification's example: the record \<open>{a: 1}\<close> and the key path \<open>[a, b]\<close>.\<close>

theorem undefined_propagation_witness:
  "getValueForSingleKeypath (Obj (Proto ''Object'') [(''a'', Num (Fin 1 0))]) ''a''
     = Num (Fin 1 0)
   \<and> getValueForSingleKeypath (Obj (Proto ''Object'') [(''a'', Num (Fin 1 0))]) ''b''
     = Undefined
   \<and> getKeyForKeypath (Obj (Proto ''Object'') [(''a'', Num (Fin 1 0))])
       (KeyPathArray [''a'', ''b'']) = Undefined
   \<and> getKeyForKeypath (Obj (Proto ''Object'') [(''a'', Num (Fin 1 0))])
       (KeyPathArray [''a'', ''b'']) \<noteq> Arr [Num (Fin 1 0), Undefined]"
  using undefined_propagation [of "Obj (Proto ''Object'') [(''a'', Num (Fin 1 0))]"
      "KeyPathArray [''a'', ''b'']"]
  by (simp add: getValueForSingleKeypath_def lodashGet_def)

text \<open>
  A key that is returned has no hole: when the result is not \<^verbatim>\<open>undefined\<close>, every
  locator resolved to a value other than \<^verbatim>\<open>null\<close> and \<^verbatim>\<open>undefined\<close>.
\<close>

lemma resolved_key_is_complete:
  assumes "getKeyForKeypath obj keyPath \<noteq> Undefined"
  shows "list_all (\<lambda>kp. \<not> isNull (getValueForSingleKeypath obj kp)
                        \<and> \<not> isUndefined (getValueForSingleKeypath obj kp))
           (arrayifyKeyPath keyPath)"
  using assms
  by (auto simp: getKeyForKeypath_def Let_def list_ex_iff list_all_iff split: if_splits)

subsection \<open>Shape errors\<close>

text \<open>
  C6. \<^verbatim>\<open>serializeKeyToString\<close> rejects a key whose shape does not fit the key path, in
  both directions: an array-shaped key with a key path that is not compound, and a key
  that is not an array with a compound key path. The message of either exception contains
  the key path and the key, as \<^verbatim>\<open>JSON.stringify\<close> prints them.
\<close>

theorem shape_mismatch_rejected:
  "(\<not> isCompoundKeyPath keyPath \<longrightarrow>
      serializeKeyToString (Arr ks) keyPath
        = Inl (SerializeNonCompoundKeypathCompoundKey keyPath (Arr ks)))
   \<and> (isCompoundKeyPath keyPath \<and> \<not> isArray key \<longrightarrow>
      serializeKeyToString key keyPath
        = Inl (SerializeCompoundKeypathNonCompoundKey keyPath key))
   \<and> errorMessage r (SerializeNonCompoundKeypathCompoundKey keyPath (Arr ks))
       = ''serializeKeyToString called with a non-compound keypath (''
           @ jsonKeyPath r keyPath @ '') but a compound key ('' @ jsonKey r (Arr ks) @ '')''
   \<and> errorMessage r (SerializeCompoundKeypathNonCompoundKey keyPath key)
       = ''serializeKeyToString called with a compound keypath (''
           @ jsonKeyPath r keyPath @ '') but a non-compound key ('' @ jsonKey r key @ '')''"
  by (simp add: serializeKeyToString_def)

text \<open>
  The specification's examples: the key \<open>[1, 2]\<close> with the key path \<open>singleField\<close>, and
  the key \<open>5\<close> with the key path \<open>[a, b]\<close>.
\<close>

theorem shape_mismatch_rejected_witness:
  "serializeKeyToString (Arr [Num (Fin 1 0), Num (Fin 2 0)]) (KeyPathString ''singleField'')
     = Inl (SerializeNonCompoundKeypathCompoundKey (KeyPathString ''singleField'')
              (Arr [Num (Fin 1 0), Num (Fin 2 0)]))
   \<and> serializeKeyToString (Num (Fin 5 0)) (KeyPathArray [''a'', ''b''])
     = Inl (SerializeCompoundKeypathNonCompoundKey (KeyPathArray [''a'', ''b''])
              (Num (Fin 5 0)))
   \<and> isShapeMismatch (SerializeNonCompoundKeypathCompoundKey (KeyPathString ''singleField'')
              (Arr [Num (Fin 1 0), Num (Fin 2 0)]))
   \<and> isShapeMismatch (SerializeCompoundKeypathNonCompoundKey (KeyPathArray [''a'', ''b''])
              (Num (Fin 5 0)))"
  using shape_mismatch_rejected [of "KeyPathString ''singleField''"
      "[Num (Fin 1 0), Num (Fin 2 0)]" "Num (Fin 5 0)"]
    shape_mismatch_rejected [of "KeyPathArray [''a'', ''b'']" "[]" "Num (Fin 5 0)"]
  by simp

subsection \<open>Unsupported types\<close>

text \<open>
  C7. The claim: every value that is not a number, a Date or a string is rejected with the
  unsupported-type error, which names the value's type. For an object without prototype the
  code does not get as far: computing the type to name, it reads \<^verbatim>\<open>.constructor\<close> of
  \<^verbatim>\<open>null\<close>, and the language's \<^verbatim>\<open>TypeError\<close> is what the caller sees.
\<close>

theorem null_prototype_object_type_error:
  "\<not> isKeyComponent (Obj NullProto [])
   \<and> serializeValueToOrderableString (Obj NullProto []) = Inl LanguageTypeError
   \<and> (\<forall>t. serializeValueToOrderableString (Obj NullProto []) \<noteq> Inl (UnsupportedType t))"
  by simp

text \<open>
  Every other value that is not a number, a Date or a string is rejected with the
  unsupported-type error, and numbers, Dates and strings never are.
\<close>

lemma unsupported_type_rejected:
  assumes "\<not> isKeyComponent v" and "\<forall>fs. v \<noteq> Obj NullProto fs"
  shows "\<exists>t. serializeValueToOrderableString v = Inl (UnsupportedType t)"
proof (cases v)
  case (Obj p fs)
  with assms(2) obtain c where "p = Proto c"
    by (cases p) auto
  with Obj show ?thesis by simp
qed (use assms(1) in simp_all)

lemma key_component_encoded:
  assumes "isKeyComponent v"
  shows "\<exists>s. serializeValueToOrderableString v = Inr s"
  using assms by (cases v) simp_all

lemma unsupported_examples:
  "serializeValueToOrderableString (Obj (Proto ''Object'') [])
     = Inl (UnsupportedType (ConstructorFn ''Object''))
   \<and> serializeValueToOrderableString (Bool True) = Inl (UnsupportedType (TypeofName ''boolean''))
   \<and> serializeValueToOrderableString Null = Inl (UnsupportedType (TypeofName ''object''))
   \<and> serializeValueToOrderableString Undefined
     = Inl (UnsupportedType (TypeofName ''undefined''))"
  by simp

subsection \<open>The number encoder follows the specified formula\<close>

lemma zeroes_replicate: "zeroes = replicate 16 (CHR ''0'')"
  by (simp add: zeroes_def numeral_eq_Suc)

text \<open>
  \<^verbatim>\<open>formatFixed(n, 4)\<close> puts zeros in front of \<^verbatim>\<open>String(n)\<close> until it has four
  characters, and leaves a longer text as it is.
\<close>

lemma formatFixed_4: "formatFixed n 4 = zeroPadded 4 (String n)"
proof (cases "length (String n) < 4")
  case True
  then have "nat (4 - int (length (String n))) = 4 - length (String n)"
    by simp
  with True show ?thesis
    by (simp add: formatFixed_def zeroPadded_def Let_def zeroes_replicate min_def)
next
  case False
  then show ?thesis
    by (simp add: formatFixed_def zeroPadded_def Let_def)
qed

text \<open>
  In the exact arithmetic of the number model, \<^verbatim>\<open>serializeNumberToOrderableString\<close> is
  the specified formula: the plain textual form for zero, \<^verbatim>\<open>NaN\<close> and the infinities; for
  a finite positive number the field \<open>1024 + exponent\<close> zero-padded to four digits and the
  textual form of the mantissa, with \<open>exponent = \<lfloor>log\<^sub>1\<^sub>0 |n|\<rfloor>\<close> and the mantissa
  \<open>|n|\<close> divided by ten to the power of the exponent; for a finite negative number \<^verbatim>\<open>-\<close>, the field
  \<open>1024 - exponent\<close> zero-padded to four digits and the textual form of \<open>10 - mantissa\<close>.
  Whether the exponent of the source, computed in floating point from \<^verbatim>\<open>Math.log\<close>, is
  this floor at every number is beyond the model.
\<close>

lemma number_encoding_is_specified_formula:
  "serializeNumberToOrderableString n = specNumberEncoding n"
proof (cases n)
  case (Fin m e)
  consider "m = 0" | "0 < m" | "m < 0"
    by linarith
  then show ?thesis
  proof cases
    case 1
    with Fin show ?thesis
      by (simp add: serializeNumberToOrderableString_def specNumberEncoding_def)
  next
    case 2
    then have "specExponent n = log10floor n"
      using Fin val_pos_iff [of m e]
      by (simp add: specExponent_def log10floor_eq del: val.simps log10floor.simps)
    moreover have "magnitude n = n"
      using Fin 2 val_neg_iff [of m e] by (simp add: magnitude_def del: val.simps)
    ultimately show ?thesis
      using Fin 2 val_pos_iff [of m e]
      by (simp add: serializeNumberToOrderableString_def specNumberEncoding_def
          specMantissa_def formatFixed_4 Let_def
          del: val.simps log10floor.simps divPow10.simps)
  next
    case 3
    then have "\<bar>val n\<bar> = val (Fin (- m) e)"
      using Fin val_neg_iff [of m e] by simp
    then have "specExponent n = log10floor (negate n)"
      using Fin 3 log10floor_eq [of "- m" e]
      by (simp add: specExponent_def del: val.simps log10floor.simps)
    moreover have "magnitude n = negate n"
      using Fin 3 val_neg_iff [of m e] by (simp add: magnitude_def del: val.simps)
    ultimately show ?thesis
      using Fin 3 val_pos_iff [of m e]
      by (simp add: serializeNumberToOrderableString_def specNumberEncoding_def
          specMantissa_def formatFixed_4 Let_def
          del: val.simps log10floor.simps divPow10.simps)
  qed
qed (simp_all add: serializeNumberToOrderableString_def specNumberEncoding_def)

text \<open>
  The specified mantissa is the quotient it is said to be, and lies in \<open>[1, 10)\<close>.
\<close>

lemma specMantissa_value:
  assumes "isFinite n" and "\<not> isZero n"
  shows "val (specMantissa n) = \<bar>val n\<bar> / 10 powi specExponent n
         \<and> 1 \<le> val (specMantissa n) \<and> val (specMantissa n) < 10"
proof -
  obtain m e where n: "n = Fin m e" "m \<noteq> 0"
    using assms by (cases n) simp_all
  define a where "a = \<bar>m\<bar>"
  have a: "0 < a"
    using n(2) by (simp add: a_def)
  have mag: "magnitude n = Fin a e"
    using n val_neg_iff [of m e] by (simp add: magnitude_def a_def del: val.simps)
  have abs: "\<bar>val n\<bar> = val (Fin a e)"
    using n pow10_pos [of e] by (simp add: a_def abs_mult)
  then have ex: "specExponent n = log10floor (Fin a e)"
    using log10floor_eq [OF a, of e] by (simp add: specExponent_def del: val.simps log10floor.simps)
  show ?thesis
    using mantissa_range [OF a, of e] val_divPow10 [of a e "log10floor (Fin a e)"]
    unfolding specMantissa_def mag ex abs by simp
qed

text \<open>The values that are passed through, and a number with a fraction.\<close>

lemma encode_examples:
  "serializeNumberToOrderableString NaN = ''NaN''
   \<and> serializeNumberToOrderableString PosInf = ''Infinity''
   \<and> serializeNumberToOrderableString NegInf = ''-Infinity''
   \<and> serializeNumberToOrderableString (Fin 15 (- 1)) = ''10241.5''
   \<and> serializeNumberToOrderableString (Fin (- 15) (- 1)) = ''-10248.5''"
  by code_simp

subsection \<open>Key lists\<close>

text \<open>
  C9. With a compound key path, \<^verbatim>\<open>formListOfKeys\<close> wraps an array whose first element is
  not an array into a list of one key, and returns an array whose first element is an
  array as the list of keys it is. So the key \<open>[1, 2]\<close> becomes \<open>[[1, 2]]\<close>.
\<close>

theorem single_compound_key_wrapped:
  assumes "isCompoundKeyPath keyPath"
  shows "(\<not> isArray (first ks) \<longrightarrow> formListOfKeys (Arr ks) keyPath = Inr [Arr ks])
       \<and> (isArray (first ks) \<longrightarrow> formListOfKeys (Arr ks) keyPath = Inr ks)"
  using assms by (simp add: formListOfKeys_def)

theorem single_compound_key_wrapped_witness:
  "isCompoundKeyPath (KeyPathArray [''a'', ''b''])
   \<and> formListOfKeys (Arr [Num (Fin 1 0), Num (Fin 2 0)]) (KeyPathArray [''a'', ''b''])
       = Inr [Arr [Num (Fin 1 0), Num (Fin 2 0)]]
   \<and> formListOfKeys (Arr [Num (Fin 1 0), Num (Fin 2 0)]) (KeyPathArray [''a'', ''b''])
       \<noteq> Inr [Arr [Num (Fin 1 0)], Arr [Num (Fin 2 0)]]
   \<and> formListOfKeys (Arr [Arr [Num (Fin 1 0), Num (Fin 2 0)], Arr [Num (Fin 3 0), Num (Fin 4 0)]])
       (KeyPathArray [''a'', ''b''])
       = Inr [Arr [Num (Fin 1 0), Num (Fin 2 0)], Arr [Num (Fin 3 0), Num (Fin 4 0)]]"
  using single_compound_key_wrapped [of "KeyPathArray [''a'', ''b'']"
      "[Num (Fin 1 0), Num (Fin 2 0)]"]
    single_compound_key_wrapped [of "KeyPathArray [''a'', ''b'']"
      "[Arr [Num (Fin 1 0), Num (Fin 2 0)], Arr [Num (Fin 3 0), Num (Fin 4 0)]]"]
  by simp

subsection \<open>Key paths that are arrays of one locator\<close>

text \<open>
  C10. A key path that is an array of one field locator is not compound, yet the key
  resolved for it is an array of one element whenever the locator resolves to a value
  other than \<^verbatim>\<open>null\<close> and \<^verbatim>\<open>undefined\<close>. So \<^verbatim>\<open>getSerializedKeyForKeypath\<close> throws the
  error of a compound key with a non-compound key path whenever there is a key, and never
  returns an encoded key for such a key path.
\<close>

theorem singleton_keypath_never_serialized:
  "\<not> isCompoundKeyPath (KeyPathArray [a])
   \<and> (\<forall>s. getSerializedKeyForKeypath obj (KeyPathArray [a]) \<noteq> Inr (Some s))
   \<and> (\<not> isNull (getValueForSingleKeypath obj a)
        \<and> \<not> isUndefined (getValueForSingleKeypath obj a) \<longrightarrow>
      getKeyForKeypath obj (KeyPathArray [a]) = Arr [getValueForSingleKeypath obj a]
      \<and> getSerializedKeyForKeypath obj (KeyPathArray [a])
          = Inl (SerializeNonCompoundKeypathCompoundKey (KeyPathArray [a])
                   (Arr [getValueForSingleKeypath obj a])))"
  by (simp add: getSerializedKeyForKeypath_def getKeyForKeypath_def serializeKeyToString_def
      Let_def)

theorem singleton_keypath_never_serialized_witness:
  "getValueForSingleKeypath (Obj (Proto ''Object'') [(''a'', Num (Fin 1 0))]) ''a''
     = Num (Fin 1 0)
   \<and> getKeyForKeypath (Obj (Proto ''Object'') [(''a'', Num (Fin 1 0))]) (KeyPathArray [''a''])
     = Arr [Num (Fin 1 0)]
   \<and> getSerializedKeyForKeypath (Obj (Proto ''Object'') [(''a'', Num (Fin 1 0))])
       (KeyPathArray [''a''])
     = Inl (SerializeNonCompoundKeypathCompoundKey (KeyPathArray [''a''])
              (Arr [Num (Fin 1 0)]))"
  using singleton_keypath_never_serialized
      [of "''a''" "Obj (Proto ''Object'') [(''a'', Num (Fin 1 0))]"]
  by (simp add: getValueForSingleKeypath_def lodashGet_def)

text \<open>
  With the key path given as the string, the same record has an encoded key.
\<close>

lemma simple_keypath_serialized:
  "getSerializedKeyForKeypath (Obj (Proto ''Object'') [(''a'', Num (Fin 1 0))])
     (KeyPathString ''a'') = Inr (Some ''A10241'')"
  by (simp add: getSerializedKeyForKeypath_def getKeyForKeypath_def serializeKeyToString_def
      getValueForSingleKeypath_def lodashGet_def encode_1)

end
